theory Spec2Isabelle
  imports Complex_Main "HOL-Library.Multiset" "HOL-Library.Sublist"
begin

section \<open>The PyTorch adapter for derandomized smoothing\<close>

text \<open>
  This theory embeds \<^verbatim>\<open>art/estimators/certification/derandomized_smoothing/pytorch.py\<close>,
  the class \<^verbatim>\<open>PyTorchDeRandomizedSmoothing\<close>. The class is an adapter: nearly every line
  calls a collaborator that lives elsewhere (the base classifier, the mixin, the ablator,
  torch, numpy, the \<^verbatim>\<open>random\<close> module). The embedding therefore has three layers.

  \<^item> The collaborators are parameters: two records of functions, one for the torch
    primitives the training loop calls and one for the base-class methods and numpy
    helpers that the predict/fit pair delegates to. Everything mutable that a
    collaborator may touch (model parameters, gradients, the training flag of the
    module, the state of the global random generator, fitted preprocessors) is one opaque
    value, the field \<open>backend\<close> of the estimator, threaded through every call.
  \<^item> Each function of the class returns its Python result, the updated estimator and the
    list of collaborator calls it made, in order, with the arguments it passed.
  \<^item> An exception is a value: the result is \<open>pyerror + 'a\<close>. The \<^verbatim>\<open>ValueError\<close> is the
    only exception the file raises with a \<^verbatim>\<open>raise\<close> statement; the other three
    constructors are the exceptions that the interpreter and numpy raise for expressions
    of this file (a division by a zero batch size, an index out of range, a keyword
    given twice). A collaborator is taken to return; its own exceptions would pass
    through unchanged and are not part of the model.

  Numbers: Python's \<^verbatim>\<open>int\<close> is \<open>int\<close>, array lengths and indices are \<open>nat\<close>, and
  floating-point values (the threshold, the classifier's outputs, the quotient under
  \<^verbatim>\<open>np.ceil\<close>) are idealised as \<open>real\<close>. A numpy array is the list of its entries along
  axis 0; a torch tensor is not distinguished from the array it was made from, so
  \<^verbatim>\<open>torch.from_numpy(a).to(device)\<close> is \<open>a\<close>.
\<close>

subsection \<open>Exceptions, keyword arguments, defaults\<close>

datatype pyerror =
    ValueError string
  | ZeroDivisionError
  | IndexError
  | TypeError

text \<open>\<^verbatim>\<open>**kwargs\<close>: the keywords a caller gave beyond the named parameters, in call order.\<close>

type_synonym 'kv kwargs = "(string \<times> 'kv) list"

text \<open>A parameter with a default value is an optional argument of the model.\<close>

definition or_default :: "'a \<Rightarrow> 'a option \<Rightarrow> 'a" where
  "or_default d v = (case v of None \<Rightarrow> d | Some a \<Rightarrow> a)"

subsection \<open>The estimator\<close>

text \<open>
  The attributes of \<^verbatim>\<open>self\<close> that this file reads: \<^verbatim>\<open>self._optimizer\<close>,
  \<^verbatim>\<open>self.nb_classes\<close>, \<^verbatim>\<open>self.threshold\<close>, \<^verbatim>\<open>self._use_amp\<close>; and the opaque mutable rest.
\<close>

record ('opt, 'b) estimator =
  optimizer :: "'opt option"
  nb_classes :: nat
  threshold :: real
  use_amp :: bool
  backend :: 'b

subsection \<open>Collaborator calls\<close>

text \<open>
  One constructor per collaborator call of \<^verbatim>\<open>fit\<close>, with the arguments passed.
  \<open>RandomShuffle\<close> records the index array before and after the in-place shuffle,
  \<open>NpCopy\<close> the row indices selected by the slice and the rows copied, \<open>AblatorForward\<close>
  the batch given to the ablator and the batch it returned, \<open>ModelCall\<close> the batch given
  to the model and the outputs it returned.
\<close>

datatype ('x, 'y, 'o, 'l) event =
    ModelTrain bool
  | CheckAndTransformLabelFormat "'y list" nat
  | ApplyPreprocessing "'x list" "'y list" bool
  | ReduceLabels "'y list"
  | RandomShuffle "nat list" "nat list"
  | NpCopy "nat list" "'x list"
  | AblatorForward "'x list" "'x list"
  | ZeroGrad
  | ModelCall "'x list" "'o list"
  | LossCall 'o "'y list"
  | AmpScaleLoss 'l
  | Backward 'l
  | AmpScaleExit
  | OptimizerStep

text \<open>
  The primitives that \<^verbatim>\<open>fit\<close> calls. \<open>Module_train\<close> is \<^verbatim>\<open>self._model.train(mode=...)\<close>,
  \<open>model_call\<close> is \<^verbatim>\<open>self._model(i_batch)\<close>, \<open>loss_call\<close> is \<^verbatim>\<open>self._loss(...)\<close>,
  \<open>amp_scale_loss\<close> and \<open>amp_scale_exit\<close> are entering and leaving the context manager
  \<^verbatim>\<open>amp.scale_loss(loss, self._optimizer)\<close>, \<open>random_shuffle\<close> is \<^verbatim>\<open>random.shuffle\<close>.
\<close>

record ('opt, 'b, 'x, 'y, 'o, 'l) torch_env =
  Module_train :: "bool \<Rightarrow> 'b \<Rightarrow> 'b"
  check_and_transform_label_format :: "'y list \<Rightarrow> nat \<Rightarrow> 'y list"
  apply_preprocessing :: "'x list \<Rightarrow> 'y list \<Rightarrow> bool \<Rightarrow> 'b \<Rightarrow> ('x list \<times> 'y list) \<times> 'b"
  reduce_labels :: "'y list \<Rightarrow> 'y list"
  random_shuffle :: "nat list \<Rightarrow> 'b \<Rightarrow> nat list \<times> 'b"
  ablator_forward :: "'x list \<Rightarrow> 'b \<Rightarrow> 'x list \<times> 'b"
  zero_grad :: "'opt \<Rightarrow> 'b \<Rightarrow> 'b"
  model_call :: "'x list \<Rightarrow> 'b \<Rightarrow> 'o list \<times> 'b"
  loss_call :: "'o \<Rightarrow> 'y list \<Rightarrow> 'b \<Rightarrow> 'l \<times> 'b"
  amp_scale_loss :: "'l \<Rightarrow> 'opt \<Rightarrow> 'b \<Rightarrow> 'l \<times> 'b"
  amp_scale_exit :: "'b \<Rightarrow> 'b"
  backward :: "'l \<Rightarrow> 'b \<Rightarrow> 'b"
  optimizer_step :: "'opt \<Rightarrow> 'b \<Rightarrow> 'b"

text \<open>
  The calls of the predict/fit pair into the base class and the mixin, with the arguments
  passed: \<^verbatim>\<open>x\<close>, \<^verbatim>\<open>y\<close> where there is one, \<^verbatim>\<open>batch_size\<close>, then \<^verbatim>\<open>training_mode\<close> or
  \<^verbatim>\<open>nb_epochs\<close>, then the keyword arguments handed on.
\<close>

datatype ('x, 'y, 'kv) delegation =
    BasePredict "'x list" int bool "'kv kwargs"
  | BaseFit "'x list" "'y list" int int "'kv kwargs"
  | MixinPredict "'x list" int bool "'kv kwargs"

text \<open>
  The methods and helpers the predict/fit pair delegates to: \<^verbatim>\<open>PyTorchClassifier.predict\<close>,
  \<^verbatim>\<open>PyTorchClassifier.fit\<close>, \<^verbatim>\<open>DeRandomizedSmoothingMixin.predict\<close>, numpy's \<^verbatim>\<open>astype\<close>
  and the constant \<^verbatim>\<open>ART_NUMPY_DTYPE\<close> of \<^verbatim>\<open>art.config\<close>.
\<close>

record ('opt, 'b, 'x, 'y, 'kv, 'r, 'd) base_env =
  ART_NUMPY_DTYPE :: 'd
  astype :: "'d \<Rightarrow> 'x list \<Rightarrow> 'x list"
  PyTorchClassifier_predict ::
    "('opt, 'b) estimator \<Rightarrow> 'x list \<Rightarrow> int \<Rightarrow> bool \<Rightarrow> 'kv kwargs \<Rightarrow> real list list \<times> 'b"
  PyTorchClassifier_fit ::
    "('opt, 'b) estimator \<Rightarrow> 'x list \<Rightarrow> 'y list \<Rightarrow> int \<Rightarrow> int \<Rightarrow> 'kv kwargs \<Rightarrow> 'b"
  Mixin_predict ::
    "('opt, 'b) estimator \<Rightarrow> 'x list \<Rightarrow> int \<Rightarrow> bool \<Rightarrow> 'kv kwargs \<Rightarrow> 'r \<times> 'b"

subsection \<open>numpy and Python helpers\<close>

text \<open>
  \<^verbatim>\<open>a[lo:hi]\<close> on a sequence: a negative bound counts from the end, and both bounds are
  clamped to the sequence. It never raises.
\<close>

definition py_slice :: "'a list \<Rightarrow> int \<Rightarrow> int \<Rightarrow> 'a list" where
  "py_slice xs lo hi =
     (let n = int (length xs);
          l = (if lo < 0 then max 0 (n + lo) else min n lo);
          h = (if hi < 0 then max 0 (n + hi) else min n hi)
      in take (nat (h - l)) (drop (nat l) xs))"

text \<open>\<^verbatim>\<open>a[idx]\<close> with an array of indices: numpy raises IndexError when one is out of range.\<close>

definition np_take :: "'a list \<Rightarrow> nat list \<Rightarrow> pyerror + 'a list" where
  "np_take xs idx =
     (if list_all (\<lambda>i. i < length xs) idx then Inr (map (\<lambda>i. xs ! i) idx) else Inl IndexError)"

text \<open>\<^verbatim>\<open>range(k)\<close>: empty when \<open>k\<close> is not positive.\<close>

definition py_range :: "int \<Rightarrow> nat list" where
  "py_range k = [0..<nat k]"

text \<open>
  \<^verbatim>\<open>torch.nn.functional.softmax(t, dim=1)\<close> on a two-dimensional tensor: every row is
  normalised on its own.
\<close>

definition softmax_row :: "real list \<Rightarrow> real list" where
  "softmax_row r = map (\<lambda>v. exp v / (\<Sum>u\<leftarrow>r. exp u)) r"

definition softmax_dim1 :: "real list list \<Rightarrow> real list list" where
  "softmax_dim1 t = map softmax_row t"

subsection \<open>The constructor\<close>

text \<open>The keyword arguments of \<^verbatim>\<open>super().__init__(...)\<close>, lines 69 to 84.\<close>

record ('m, 'lf, 'opt, 'cv, 'pd, 'qd) init_kwargs =
  kw_model :: 'm
  kw_loss :: 'lf
  kw_input_shape :: "nat list"
  kw_nb_classes :: int
  kw_optimizer :: "'opt option"
  kw_channels_first :: bool
  kw_clip_values :: "'cv option"
  kw_preprocessing_defences :: "'pd option"
  kw_postprocessing_defences :: "'qd option"
  kw_preprocessing :: "real \<times> real"
  kw_device_type :: string
  kw_ablation_type :: string
  kw_ablation_size :: int
  kw_threshold :: real

text \<open>
  \<^verbatim>\<open>__init__\<close>: the seven parameters with a default are optional arguments; a parameter
  whose default is \<^verbatim>\<open>None\<close> is an option as it stands. \<open>super_init\<close> is the initializer
  that the method resolution order puts next.
\<close>

definition init ::
  "(('m, 'lf, 'opt, 'cv, 'pd, 'qd) init_kwargs \<Rightarrow> 's) \<Rightarrow>
   'm \<Rightarrow> 'lf \<Rightarrow> nat list \<Rightarrow> int \<Rightarrow> string \<Rightarrow> int \<Rightarrow> real \<Rightarrow>
   'opt option \<Rightarrow> bool option \<Rightarrow> 'cv option \<Rightarrow> 'pd option \<Rightarrow> 'qd option \<Rightarrow>
   (real \<times> real) option \<Rightarrow> string option \<Rightarrow> 's" where
  "init super_init p_model p_loss p_input_shape p_nb_classes p_ablation_type p_ablation_size
     p_threshold p_optimizer p_channels_first p_clip_values p_preprocessing_defences
     p_postprocessing_defences p_preprocessing p_device_type =
   super_init
     \<lparr> kw_model = p_model,
       kw_loss = p_loss,
       kw_input_shape = p_input_shape,
       kw_nb_classes = p_nb_classes,
       kw_optimizer = p_optimizer,
       kw_channels_first = or_default True p_channels_first,
       kw_clip_values = p_clip_values,
       kw_preprocessing_defences = p_preprocessing_defences,
       kw_postprocessing_defences = p_postprocessing_defences,
       kw_preprocessing = or_default (0, 1) p_preprocessing,
       kw_device_type = or_default ''gpu'' p_device_type,
       kw_ablation_type = p_ablation_type,
       kw_ablation_size = p_ablation_size,
       kw_threshold = p_threshold \<rparr>"

subsection \<open>Prediction and delegated fitting\<close>

text \<open>\<^verbatim>\<open>_predict_classifier\<close>, lines 86 to 90.\<close>

definition predict_classifier ::
  "('opt, 'b, 'x, 'y, 'kv, 'r, 'd) base_env \<Rightarrow> ('opt, 'b) estimator \<Rightarrow> 'x list \<Rightarrow> int \<Rightarrow>
   bool \<Rightarrow> 'kv kwargs \<Rightarrow>
   int list list \<times> ('opt, 'b) estimator \<times> ('x, 'y, 'kv) delegation list" where
  "predict_classifier env self x batch_size training_mode kwargs =
     (let x1 = astype env (ART_NUMPY_DTYPE env) x;
          (outputs, b1) = PyTorchClassifier_predict env self x1 batch_size training_mode kwargs;
          outputs1 = softmax_dim1 outputs
      in (map (map (\<lambda>p. if threshold self \<le> p then 1 else 0)) outputs1,
          self\<lparr>backend := b1\<rparr>,
          [BasePredict x1 batch_size training_mode kwargs]))"

text \<open>
  \<^verbatim>\<open>predict\<close>, lines 92 to 102. \<^verbatim>\<open>training_mode\<close> is not a named parameter, so a caller's
  \<^verbatim>\<open>training_mode=...\<close> arrives in \<^verbatim>\<open>kwargs\<close> and meets the explicit keyword of line 102:
  the interpreter raises TypeError for the duplicated keyword before the mixin is entered.
\<close>

definition predict ::
  "('opt, 'b, 'x, 'y, 'kv, 'r, 'd) base_env \<Rightarrow> ('opt, 'b) estimator \<Rightarrow> 'x list \<Rightarrow>
   int option \<Rightarrow> 'kv kwargs \<Rightarrow>
   (pyerror + 'r) \<times> ('opt, 'b) estimator \<times> ('x, 'y, 'kv) delegation list" where
  "predict env self x batch_size kwargs =
     (let bs = or_default 128 batch_size in
      if ''training_mode'' \<in> set (map fst kwargs)
      then (Inl TypeError, self, [])
      else (let (r, b1) = Mixin_predict env self x bs False kwargs
            in (Inr r, self\<lparr>backend := b1\<rparr>, [MixinPredict x bs False kwargs])))"

text \<open>\<^verbatim>\<open>_fit_classifier\<close>, lines 104 to 106.\<close>

definition fit_classifier ::
  "('opt, 'b, 'x, 'y, 'kv, 'r, 'd) base_env \<Rightarrow> ('opt, 'b) estimator \<Rightarrow> 'x list \<Rightarrow> 'y list \<Rightarrow>
   int \<Rightarrow> int \<Rightarrow> 'kv kwargs \<Rightarrow>
   unit \<times> ('opt, 'b) estimator \<times> ('x, 'y, 'kv) delegation list" where
  "fit_classifier env self x y batch_size nb_epochs kwargs =
     (let x1 = astype env (ART_NUMPY_DTYPE env) x;
          b1 = PyTorchClassifier_fit env self x1 y batch_size nb_epochs kwargs
      in ((), self\<lparr>backend := b1\<rparr>, [BaseFit x1 y batch_size nb_epochs kwargs]))"

subsection \<open>The training loop\<close>

text \<open>
  The body of the inner loop, lines 155 to 180, for batch number \<open>m\<close> of an epoch whose
  shuffled index array is \<open>ind\<close>. The slice of \<open>ind\<close> is taken twice in the source, for
  the inputs and for the labels, with the same bounds.
\<close>

definition train_batch ::
  "('opt, 'b, 'x, 'y, 'o, 'l) torch_env \<Rightarrow> 'opt \<Rightarrow> bool \<Rightarrow> 'x list \<Rightarrow> 'y list \<Rightarrow> int \<Rightarrow>
   nat list \<Rightarrow> nat \<Rightarrow> 'b \<Rightarrow> (pyerror + unit) \<times> 'b \<times> ('x, 'y, 'o, 'l) event list" where
  "train_batch env opt amp x_preprocessed y_preprocessed batch_size ind m b =
     (let idx = py_slice ind (int m * batch_size) ((int m + 1) * batch_size) in
      case np_take x_preprocessed idx of
        Inl e \<Rightarrow> (Inl e, b, [])
      | Inr rows \<Rightarrow>
          (let (i_batch, b1) = ablator_forward env rows b;
               t1 = [NpCopy idx rows, AblatorForward rows i_batch]
           in case np_take y_preprocessed idx of
                Inl e \<Rightarrow> (Inl e, b1, t1)
              | Inr o_batch \<Rightarrow>
                  (let b2 = zero_grad env opt b1;
                       (model_outputs, b3) = model_call env i_batch b2;
                       t2 = t1 @ [ZeroGrad, ModelCall i_batch model_outputs]
                   in if model_outputs = [] then (Inl IndexError, b3, t2)
                      else
                        (let (loss, b4) = loss_call env (last model_outputs) o_batch b3;
                             (b5, t3) =
                               (if amp
                                then (let (scaled_loss, b41) = amp_scale_loss env loss opt b4;
                                          b42 = backward env scaled_loss b41
                                      in (amp_scale_exit env b42,
                                          [AmpScaleLoss loss, Backward scaled_loss, AmpScaleExit]))
                                else (backward env loss b4, [Backward loss]));
                             b6 = optimizer_step env opt b5
                         in (Inr (), b6,
                             t2 @ [LossCall (last model_outputs) o_batch] @ t3 @
                             [OptimizerStep])))))"

text \<open>The inner loop, line 154: \<open>ms\<close> is what is left of \<^verbatim>\<open>range(num_batch)\<close>.\<close>

fun batches ::
  "('opt, 'b, 'x, 'y, 'o, 'l) torch_env \<Rightarrow> 'opt \<Rightarrow> bool \<Rightarrow> 'x list \<Rightarrow> 'y list \<Rightarrow> int \<Rightarrow>
   nat list \<Rightarrow> nat list \<Rightarrow> 'b \<Rightarrow> (pyerror + unit) \<times> 'b \<times> ('x, 'y, 'o, 'l) event list" where
  "batches env opt amp xp yp batch_size ind [] b = (Inr (), b, [])"
| "batches env opt amp xp yp batch_size ind (m # ms) b =
     (case train_batch env opt amp xp yp batch_size ind m b of
        (Inl e, b1, t1) \<Rightarrow> (Inl e, b1, t1)
      | (Inr u, b1, t1) \<Rightarrow>
          (case batches env opt amp xp yp batch_size ind ms b1 of
             (r, b2, t2) \<Rightarrow> (r, b2, t1 @ t2)))"

text \<open>
  The outer loop, line 149: \<open>k\<close> epochs are left. \<^verbatim>\<open>random.shuffle(ind)\<close> works in place,
  so an epoch shuffles the array the epoch before left behind.
\<close>

fun epochs ::
  "('opt, 'b, 'x, 'y, 'o, 'l) torch_env \<Rightarrow> 'opt \<Rightarrow> bool \<Rightarrow> 'x list \<Rightarrow> 'y list \<Rightarrow> int \<Rightarrow>
   int \<Rightarrow> nat \<Rightarrow> nat list \<Rightarrow> 'b \<Rightarrow> (pyerror + unit) \<times> 'b \<times> ('x, 'y, 'o, 'l) event list" where
  "epochs env opt amp xp yp batch_size num_batch 0 ind b = (Inr (), b, [])"
| "epochs env opt amp xp yp batch_size num_batch (Suc k) ind b =
     (let (ind1, b1) = random_shuffle env ind b in
      case batches env opt amp xp yp batch_size ind1 (py_range num_batch) b1 of
        (Inl e, b2, t1) \<Rightarrow> (Inl e, b2, RandomShuffle ind ind1 # t1)
      | (Inr u, b2, t1) \<Rightarrow>
          (case epochs env opt amp xp yp batch_size num_batch k ind1 b2 of
             (r, b3, t2) \<Rightarrow> (r, b3, RandomShuffle ind ind1 # t1 @ t2)))"

text \<open>
  \<^verbatim>\<open>fit\<close>, lines 108 to 180. \<^verbatim>\<open>len(x_preprocessed) / float(batch_size)\<close> divides a Python
  int by a Python float, which raises ZeroDivisionError for a zero batch size. The
  keyword arguments are accepted and not used.
\<close>

definition fit ::
  "('opt, 'b, 'x, 'y, 'o, 'l) torch_env \<Rightarrow> ('opt, 'b) estimator \<Rightarrow> 'x list \<Rightarrow> 'y list \<Rightarrow>
   int option \<Rightarrow> int option \<Rightarrow> bool option \<Rightarrow> 'kv kwargs \<Rightarrow>
   (pyerror + unit) \<times> ('opt, 'b) estimator \<times> ('x, 'y, 'o, 'l) event list" where
  "fit env self x y batch_size nb_epochs training_mode kwargs =
     (let bs = or_default 128 batch_size;
          ne = or_default 10 nb_epochs;
          tm = or_default True training_mode;
          b0 = Module_train env tm (backend self);
          t0 = [ModelTrain tm]
      in case optimizer self of
           None \<Rightarrow>
             (Inl (ValueError ''An optimizer is needed to train the model, but none for provided.''),
              self\<lparr>backend := b0\<rparr>, t0)
         | Some opt \<Rightarrow>
             (let y1 = check_and_transform_label_format env y (nb_classes self);
                  ((x_preprocessed, y_preprocessed0), b1) = apply_preprocessing env x y1 True b0;
                  y_preprocessed = reduce_labels env y_preprocessed0;
                  t1 = t0 @ [CheckAndTransformLabelFormat y (nb_classes self),
                             ApplyPreprocessing x y1 True, ReduceLabels y_preprocessed0]
              in if bs = 0 then (Inl ZeroDivisionError, self\<lparr>backend := b1\<rparr>, t1)
                 else
                   (let num_batch = \<lceil>real (length x_preprocessed) / real_of_int bs\<rceil>;
                        ind = [0..<length x_preprocessed]
                    in case epochs env opt (use_amp self) x_preprocessed y_preprocessed bs
                              num_batch (nat ne) ind b1 of
                         (r, b2, t2) \<Rightarrow> (r, self\<lparr>backend := b2\<rparr>, t1 @ t2))))"

text \<open>
  The arrays that the loop trains on, lines 137 to 143: the preprocessed inputs and the
  reduced preprocessed labels, as \<^verbatim>\<open>fit\<close> computes them once the optimizer check has passed.
\<close>

definition fit_preprocessed ::
  "('opt, 'b, 'x, 'y, 'o, 'l) torch_env \<Rightarrow> ('opt, 'b) estimator \<Rightarrow> 'x list \<Rightarrow> 'y list \<Rightarrow>
   bool \<Rightarrow> 'x list \<times> 'y list" where
  "fit_preprocessed env self x y tm =
     (let b0 = Module_train env tm (backend self);
          y1 = check_and_transform_label_format env y (nb_classes self);
          ((x_preprocessed, y_preprocessed0), b1) = apply_preprocessing env x y1 True b0
      in (x_preprocessed, reduce_labels env y_preprocessed0))"

text \<open>
  The calls that \<^verbatim>\<open>fit\<close> has made when it reaches line 145, and the backend it holds there.
\<close>

definition fit_prologue ::
  "('opt, 'b, 'x, 'y, 'o, 'l) torch_env \<Rightarrow> ('opt, 'b) estimator \<Rightarrow> 'x list \<Rightarrow> 'y list \<Rightarrow>
   bool \<Rightarrow> ('x, 'y, 'o, 'l) event list" where
  "fit_prologue env self x y tm =
     (let y1 = check_and_transform_label_format env y (nb_classes self)
      in [ModelTrain tm, CheckAndTransformLabelFormat y (nb_classes self),
          ApplyPreprocessing x y1 True,
          ReduceLabels (snd (fst (apply_preprocessing env x y1 True
                                    (Module_train env tm (backend self)))))])"

definition fit_backend1 ::
  "('opt, 'b, 'x, 'y, 'o, 'l) torch_env \<Rightarrow> ('opt, 'b) estimator \<Rightarrow> 'x list \<Rightarrow> 'y list \<Rightarrow>
   bool \<Rightarrow> 'b" where
  "fit_backend1 env self x y tm =
     snd (apply_preprocessing env x (check_and_transform_label_format env y (nb_classes self))
            True (Module_train env tm (backend self)))"

subsection \<open>Reading a list of collaborator calls\<close>

text \<open>The kind of a call, without its arguments.\<close>

datatype stage =
    Train | LabelFormat | Preprocess | Reduce | Shuffle | Copy | Ablate | ZeroGradients
  | Forward | Loss | AmpEnter | BackwardPass | AmpLeave | Step

fun stage_of :: "('x, 'y, 'o, 'l) event \<Rightarrow> stage" where
  "stage_of (ModelTrain mode) = Train"
| "stage_of (CheckAndTransformLabelFormat y k) = LabelFormat"
| "stage_of (ApplyPreprocessing x y f) = Preprocess"
| "stage_of (ReduceLabels y) = Reduce"
| "stage_of (RandomShuffle ind ind1) = Shuffle"
| "stage_of (NpCopy idx rows) = Copy"
| "stage_of (AblatorForward rows i_batch) = Ablate"
| "stage_of ZeroGrad = ZeroGradients"
| "stage_of (ModelCall i_batch outs) = Forward"
| "stage_of (LossCall out labels) = Loss"
| "stage_of (AmpScaleLoss l) = AmpEnter"
| "stage_of (Backward l) = BackwardPass"
| "stage_of AmpScaleExit = AmpLeave"
| "stage_of OptimizerStep = Step"

text \<open>
  The stages of one batch, of one epoch and of a whole run of \<^verbatim>\<open>fit\<close>, as lines 149 to
  180 order them. With mixed precision (\<^verbatim>\<open>self._use_amp\<close>) the backward pass runs inside
  the loss-scaling context.
\<close>

definition batch_stages :: "bool \<Rightarrow> stage list" where
  "batch_stages amp =
     [Copy, Ablate, ZeroGradients, Forward, Loss] @
     (if amp then [AmpEnter, BackwardPass, AmpLeave] else [BackwardPass]) @ [Step]"

definition epoch_stages :: "bool \<Rightarrow> nat \<Rightarrow> stage list" where
  "epoch_stages amp num_batch = Shuffle # concat (replicate num_batch (batch_stages amp))"

definition fit_stages :: "bool \<Rightarrow> nat \<Rightarrow> nat \<Rightarrow> stage list" where
  "fit_stages amp nb_epochs num_batch =
     [Train, LabelFormat, Preprocess, Reduce] @
     concat (replicate nb_epochs (epoch_stages amp num_batch))"

text \<open>
  What each call of a batch is given: the copy holds the rows of the preprocessed inputs
  at the sliced indices, the ablator receives the rows just copied, and the model receives
  what the ablator just returned. \<open>copied\<close> and \<open>ablated\<close> are the values still waiting
  for their consumer.
\<close>

fun batch_flow_ok ::
  "'x list \<Rightarrow> 'x list option \<Rightarrow> 'x list option \<Rightarrow> ('x, 'y, 'o, 'l) event list \<Rightarrow> bool" where
  "batch_flow_ok xp copied ablated [] = True"
| "batch_flow_ok xp copied ablated (NpCopy idx rows # es) =
     (np_take xp idx = Inr rows \<and> batch_flow_ok xp (Some rows) None es)"
| "batch_flow_ok xp copied ablated (AblatorForward rows i_batch # es) =
     (copied = Some rows \<and> batch_flow_ok xp None (Some i_batch) es)"
| "batch_flow_ok xp copied ablated (ModelCall i_batch outs # es) =
     (ablated = Some i_batch \<and> batch_flow_ok xp None None es)"
| "batch_flow_ok xp copied ablated (e # es) = batch_flow_ok xp copied ablated es"

text \<open>
  What the loss is given: the last entry of the outputs that the model returned in this
  iteration, and the rows of the labels at the indices of this iteration's batch.
  \<open>cur_idx\<close> is the index slice of the running iteration, \<open>cur_outs\<close> the model outputs
  not yet consumed by a loss.
\<close>

fun loss_inputs_ok ::
  "'y list \<Rightarrow> nat list option \<Rightarrow> 'o list option \<Rightarrow> ('x, 'y, 'o, 'l) event list \<Rightarrow> bool" where
  "loss_inputs_ok yp cur_idx cur_outs [] = True"
| "loss_inputs_ok yp cur_idx cur_outs (NpCopy idx rows # es) =
     loss_inputs_ok yp (Some idx) None es"
| "loss_inputs_ok yp cur_idx cur_outs (ModelCall i_batch outs # es) =
     loss_inputs_ok yp cur_idx (Some outs) es"
| "loss_inputs_ok yp cur_idx cur_outs (LossCall out labels # es) =
     ((case cur_outs of None \<Rightarrow> False | Some outs \<Rightarrow> outs \<noteq> [] \<and> out = last outs) \<and>
      (case cur_idx of None \<Rightarrow> False | Some idx \<Rightarrow> np_take yp idx = Inr labels) \<and>
      loss_inputs_ok yp cur_idx None es)"
| "loss_inputs_ok yp cur_idx cur_outs (e # es) = loss_inputs_ok yp cur_idx cur_outs es"

text \<open>
  The epochs of a run: for every shuffle, the index array it left and the index slices
  of the batches copied before the next shuffle.
\<close>

fun copies :: "('x, 'y, 'o, 'l) event list \<Rightarrow> nat list list" where
  "copies [] = []"
| "copies (RandomShuffle ind ind1 # es) = []"
| "copies (NpCopy idx rows # es) = idx # copies es"
| "copies (e # es) = copies es"

fun epochs_of :: "('x, 'y, 'o, 'l) event list \<Rightarrow> (nat list \<times> nat list list) list" where
  "epochs_of [] = []"
| "epochs_of (RandomShuffle ind ind1 # es) = (ind1, copies es) # epochs_of es"
| "epochs_of (e # es) = epochs_of es"

text \<open>
  One epoch as the invariant of the batching wants it: \<open>n\<close> examples, batch size \<open>b\<close>,
  shuffled index array \<open>ind\<close> cut into the slices \<open>bts\<close>.
\<close>

definition epoch_ok :: "nat \<Rightarrow> nat \<Rightarrow> nat list \<times> nat list list \<Rightarrow> bool" where
  "epoch_ok n b ep =
     (case ep of (ind, bts) \<Rightarrow>
        mset ind = mset [0..<n] \<and>
        int (length bts) = \<lceil>real n / real b\<rceil> \<and>
        concat bts = ind \<and>
        list_all (\<lambda>bt. length bt = b) (butlast bts) \<and>
        list_all (\<lambda>i. length (filter (\<lambda>bt. i \<in> set bt) bts) = 1) [0..<n])"

subsection \<open>A small concrete instance\<close>

text \<open>
  Examples, labels, outputs and losses are integers. The backend is the training flag of
  the module and the number of optimizer steps taken. The shuffle reverses the array, the
  ablator doubles every entry, the model returns two outputs of which the last is the sum
  of the batch, the loss subtracts the sum of the labels.
\<close>

definition toy_env :: "(unit, bool \<times> nat, int, int, int, int) torch_env" where
  "toy_env =
     \<lparr> Module_train = (\<lambda>mode (tr, steps). (mode, steps)),
       check_and_transform_label_format = (\<lambda>y k. y),
       apply_preprocessing = (\<lambda>x y f b. ((x, y), b)),
       reduce_labels = (\<lambda>y. y),
       random_shuffle = (\<lambda>ind b. (rev ind, b)),
       ablator_forward = (\<lambda>rows b. (map (\<lambda>v. 2 * v) rows, b)),
       zero_grad = (\<lambda>opt b. b),
       model_call = (\<lambda>xs b. ([0, sum_list xs], b)),
       loss_call = (\<lambda>out ys b. (out - sum_list ys, b)),
       amp_scale_loss = (\<lambda>l opt b. (2 * l, b)),
       amp_scale_exit = (\<lambda>b. b),
       backward = (\<lambda>l b. b),
       optimizer_step = (\<lambda>opt (tr, steps). (tr, Suc steps)) \<rparr>"

definition toy_self :: "unit option \<Rightarrow> (unit, bool \<times> nat) estimator" where
  "toy_self opt =
     \<lparr> optimizer = opt, nb_classes = 2, threshold = 1 / 2, use_amp = False,
       backend = (False, 0) \<rparr>"

text \<open>
  The delegates of the predict/fit pair: the cast and the base-class fit change nothing,
  the base-class predict returns equal logits for two classes on every input, the mixin
  returns the number of inputs.
\<close>

definition toy_base :: "(unit, bool \<times> nat, int, int, int, nat, unit) base_env" where
  "toy_base =
     \<lparr> ART_NUMPY_DTYPE = (),
       astype = (\<lambda>d x. x),
       PyTorchClassifier_predict = (\<lambda>self x bs tm kw. (map (\<lambda>v. [0, 0]) x, backend self)),
       PyTorchClassifier_fit = (\<lambda>self x y bs ne kw. backend self),
       Mixin_predict = (\<lambda>self x bs tm kw. (length x, backend self)) \<rparr>"

section \<open>Properties\<close>

subsection \<open>Fitting without an optimizer\<close>

text \<open>
  Claim C1. Whenever the configured optimizer is \<^verbatim>\<open>None\<close>, \<^verbatim>\<open>fit\<close> raises the ValueError
  that says an optimizer is needed, whatever the other arguments are. The only collaborator
  call it has made by then is \<^verbatim>\<open>self._model.train\<close>: no label transformation, no
  preprocessing, no shuffle, no forward or backward pass and no optimizer step.
\<close>

theorem fit_without_optimizer_raises:
  assumes "optimizer self = None"
  shows "fit env self x y batch_size nb_epochs training_mode kwargs =
           (Inl (ValueError ''An optimizer is needed to train the model, but none for provided.''),
            self\<lparr>backend := Module_train env (or_default True training_mode) (backend self)\<rparr>,
            [ModelTrain (or_default True training_mode)])"
  using assms by (simp add: fit_def Let_def)

theorem fit_without_optimizer_raises_witness:
  "fit toy_env (toy_self None) [10, 20, 30] [1, 0, 1] (Some 2) (Some 2) (Some True)
       ([] :: int kwargs) =
     (Inl (ValueError ''An optimizer is needed to train the model, but none for provided.''),
      \<lparr> optimizer = None, nb_classes = 2, threshold = 1 / 2, use_amp = False,
        backend = (True, 0) \<rparr>,
      [ModelTrain True])"
  using fit_without_optimizer_raises
    [of "toy_self None" toy_env "[10, 20, 30]" "[1, 0, 1]" "Some 2" "Some 2" "Some True" "[]"]
  by (simp add: toy_self_def toy_env_def or_default_def)

text \<open>
  Claim C8. On that error path the module has been switched to the requested mode before
  the exception leaves \<^verbatim>\<open>fit\<close>: the call \<^verbatim>\<open>self._model.train(mode=training_mode)\<close> is the
  one call made, the backend that comes back is the one this call produced, and the
  estimator is what it was before exactly when that call changed nothing. So \<^verbatim>\<open>fit\<close> is not
  atomic when it fails for want of an optimizer.
\<close>

theorem fit_raises_after_train:
  assumes "optimizer self = None"
  shows "case fit env self x y batch_size nb_epochs training_mode kwargs of
           (r, self1, t) \<Rightarrow>
             (case r of Inl (ValueError msg) \<Rightarrow> True | _ \<Rightarrow> False) \<and>
             t = [ModelTrain (or_default True training_mode)] \<and>
             backend self1 = Module_train env (or_default True training_mode) (backend self) \<and>
             (self1 = self) =
               (Module_train env (or_default True training_mode) (backend self) = backend self)"
  using assms
  apply (simp add: fit_def Let_def)
  apply (metis estimator.surjective estimator.update_convs(5) estimator.select_convs(5))
  done

theorem fit_raises_after_train_witness:
  "backend (toy_self None) = (False, 0) \<and>
   backend (fst (snd (fit toy_env (toy_self None) [10, 20, 30] [1, 0, 1] None None (Some True)
                        ([] :: int kwargs)))) = (True, 0) \<and>
   fst (snd (fit toy_env (toy_self None) [10, 20, 30] [1, 0, 1] None None (Some True)
               ([] :: int kwargs))) \<noteq> toy_self None"
proof -
  have a: "optimizer (toy_self None) = None" by (simp add: toy_self_def)
  from fit_raises_after_train
         [OF a, where env = toy_env and x = "[10, 20, 30]" and y = "[1, 0, 1]"
            and batch_size = None and nb_epochs = None and training_mode = "Some True"
            and kwargs = "[] :: int kwargs"]
  show ?thesis
    by (simp add: split_beta toy_self_def toy_env_def or_default_def)
qed

subsection \<open>Thresholded prediction\<close>



subsection \<open>Casting and delegation\<close>

text \<open>
  Claim C3. \<^verbatim>\<open>_predict_classifier\<close> and \<^verbatim>\<open>_fit_classifier\<close> each make one call into the
  base classifier, to its \<^verbatim>\<open>predict\<close> and its \<^verbatim>\<open>fit\<close>. The input handed over is \<open>x\<close> cast to
  \<^verbatim>\<open>ART_NUMPY_DTYPE\<close>; the batch size, the training mode or the number of epochs, the labels
  and the keyword arguments are handed over as they came.
\<close>

theorem classifier_pair_casts_and_delegates:
  "predict_classifier env self x batch_size training_mode kwargs =
     (let x1 = astype env (ART_NUMPY_DTYPE env) x;
          r = PyTorchClassifier_predict env self x1 batch_size training_mode kwargs
      in (map (map (\<lambda>p. if threshold self \<le> p then 1 else 0)) (softmax_dim1 (fst r)),
          self\<lparr>backend := snd r\<rparr>,
          [BasePredict x1 batch_size training_mode kwargs])) \<and>
   fit_classifier env self x y batch_size nb_epochs kwargs =
     (let x1 = astype env (ART_NUMPY_DTYPE env) x
      in ((), self\<lparr>backend := PyTorchClassifier_fit env self x1 y batch_size nb_epochs kwargs\<rparr>,
          [BaseFit x1 y batch_size nb_epochs kwargs]))"
  by (simp add: predict_classifier_def fit_classifier_def Let_def split_beta)

text \<open>
  Claim C5. The constructor hands every argument to the next initializer under the keyword
  of the same name and with the value it received: the three hyperparameters
  \<^verbatim>\<open>ablation_type\<close>, \<^verbatim>\<open>ablation_size\<close> and \<^verbatim>\<open>threshold\<close>, and the eleven other arguments.
  An argument left out is handed over as its default.
\<close>

theorem init_passes_arguments_through:
  "init super_init p_model p_loss p_input_shape p_nb_classes p_ablation_type p_ablation_size
     p_threshold p_optimizer (Some p_channels_first) p_clip_values p_preprocessing_defences
     p_postprocessing_defences (Some p_preprocessing) (Some p_device_type) =
   super_init
     \<lparr> kw_model = p_model, kw_loss = p_loss, kw_input_shape = p_input_shape,
       kw_nb_classes = p_nb_classes, kw_optimizer = p_optimizer,
       kw_channels_first = p_channels_first, kw_clip_values = p_clip_values,
       kw_preprocessing_defences = p_preprocessing_defences,
       kw_postprocessing_defences = p_postprocessing_defences,
       kw_preprocessing = p_preprocessing, kw_device_type = p_device_type,
       kw_ablation_type = p_ablation_type, kw_ablation_size = p_ablation_size,
       kw_threshold = p_threshold \<rparr> \<and>
   init super_init p_model p_loss p_input_shape p_nb_classes p_ablation_type p_ablation_size
     p_threshold None None None None None None None =
   super_init
     \<lparr> kw_model = p_model, kw_loss = p_loss, kw_input_shape = p_input_shape,
       kw_nb_classes = p_nb_classes, kw_optimizer = None,
       kw_channels_first = True, kw_clip_values = None,
       kw_preprocessing_defences = None, kw_postprocessing_defences = None,
       kw_preprocessing = (0, 1), kw_device_type = ''gpu'',
       kw_ablation_type = p_ablation_type, kw_ablation_size = p_ablation_size,
       kw_threshold = p_threshold \<rparr>"
  by (simp add: init_def or_default_def)

text \<open>
  Claim C6. \<^verbatim>\<open>predict\<close> takes \<open>x\<close> and an optional batch size, \<^verbatim>\<open>fit\<close> takes \<open>x\<close>, \<open>y\<close> and an
  optional batch size and number of epochs; a batch size left out is 128 and a number of
  epochs left out is 10. For every \<open>x\<close> and batch size, \<^verbatim>\<open>predict(x, batch_size)\<close> makes one
  call, to the mixin's \<^verbatim>\<open>predict\<close>, with the same \<open>x\<close> and batch size and with the training
  mode \<^verbatim>\<open>False\<close>, and returns what that call returns. Further keywords of the caller go
  along unchanged, provided none of them is \<^verbatim>\<open>training_mode\<close>, which \<^verbatim>\<open>predict\<close> sets itself.
\<close>

theorem predict_delegates_to_mixin:
  "predict env self x (Some batch_size) [] =
     (Inr (fst (Mixin_predict env self x batch_size False [])),
      self\<lparr>backend := snd (Mixin_predict env self x batch_size False [])\<rparr>,
      [MixinPredict x batch_size False []]) \<and>
   (''training_mode'' \<notin> set (map fst kwargs) \<longrightarrow>
    predict env self x (Some batch_size) kwargs =
      (Inr (fst (Mixin_predict env self x batch_size False kwargs)),
       self\<lparr>backend := snd (Mixin_predict env self x batch_size False kwargs)\<rparr>,
       [MixinPredict x batch_size False kwargs])) \<and>
   predict env self x None kwargs = predict env self x (Some 128) kwargs \<and>
   fit tenv self x y None None None kwargs =
     fit tenv self x y (Some 128) (Some 10) (Some True) kwargs"
  by (simp add: predict_def fit_def or_default_def Let_def split_beta)

theorem predict_delegates_to_mixin_witness:
  "predict toy_base (toy_self None) [10, 20, 30] None [(''is_abstain'', 1)] =
     (Inr 3, toy_self None, [MixinPredict [10, 20, 30] 128 False [(''is_abstain'', 1)]])"
  using predict_delegates_to_mixin
    [where env = toy_base and self = "toy_self None" and x = "[10, 20, 30]"
       and batch_size = 128 and kwargs = "[(''is_abstain'', 1)]" and tenv = toy_env
       and y = "[1, 0, 1]"]
  by (simp add: toy_base_def toy_self_def)

subsection \<open>The outcomes of one batch\<close>

text \<open>
  A batch that completes has made its seven calls (nine under mixed precision) on rows and
  labels that the index slice selects; a batch that fails has failed with IndexError,
  before the copy, before the gradients are zeroed, or on an empty model output.
\<close>

lemma train_batch_Inr:
  assumes "train_batch env opt amp xp yp bs ind m b = (Inr u, b1, t)"
  shows "\<exists>rows ib ob outs l sl.
           np_take xp (py_slice ind (int m * bs) ((int m + 1) * bs)) = Inr rows \<and>
           np_take yp (py_slice ind (int m * bs) ((int m + 1) * bs)) = Inr ob \<and>
           outs \<noteq> [] \<and>
           t = [NpCopy (py_slice ind (int m * bs) ((int m + 1) * bs)) rows,
                AblatorForward rows ib, ZeroGrad, ModelCall ib outs,
                LossCall (last outs) ob] @
               (if amp then [AmpScaleLoss l, Backward sl, AmpScaleExit] else [Backward l]) @
               [OptimizerStep]"
  using assms
  by (auto simp: train_batch_def Let_def split: sum.splits prod.splits if_splits)

lemma train_batch_Inl:
  assumes "train_batch env opt amp xp yp bs ind m b = (Inl e, b1, t)"
  shows "e = IndexError \<and>
         (t = [] \<or>
          (\<exists>rows ib. np_take xp (py_slice ind (int m * bs) ((int m + 1) * bs)) = Inr rows \<and>
             (t = [NpCopy (py_slice ind (int m * bs) ((int m + 1) * bs)) rows,
                   AblatorForward rows ib] \<or>
              t = [NpCopy (py_slice ind (int m * bs) ((int m + 1) * bs)) rows,
                   AblatorForward rows ib, ZeroGrad, ModelCall ib []])))"
  using assms
  by (auto simp: train_batch_def Let_def np_take_def split: sum.splits prod.splits if_splits)

subsection \<open>The run of fit past the optimizer check\<close>

lemma fit_Some_eq:
  assumes "optimizer self = Some opt"
      and "bs = or_default 128 batch_size"
      and "tm = or_default True training_mode"
      and "xp = fst (fit_preprocessed env self x y tm)"
      and "yp = snd (fit_preprocessed env self x y tm)"
  shows "fit env self x y batch_size nb_epochs training_mode kwargs =
           (if bs = 0
            then (Inl ZeroDivisionError, self\<lparr>backend := fit_backend1 env self x y tm\<rparr>,
                  fit_prologue env self x y tm)
            else (case epochs env opt (use_amp self) xp yp bs
                         \<lceil>real (length xp) / real_of_int bs\<rceil>
                         (nat (or_default 10 nb_epochs)) [0..<length xp]
                         (fit_backend1 env self x y tm) of
                    (r, b2, t2) \<Rightarrow>
                      (r, self\<lparr>backend := b2\<rparr>, fit_prologue env self x y tm @ t2)))"
  using assms
  by (simp add: fit_def fit_preprocessed_def fit_prologue_def fit_backend1_def Let_def
      split_beta)

lemma map_stage_of_fit_prologue [simp]:
  "map stage_of (fit_prologue env self x y tm) = [Train, LabelFormat, Preprocess, Reduce]"
  by (simp add: fit_prologue_def Let_def)

lemma batch_flow_ok_fit_prologue [simp]:
  "batch_flow_ok xp c a (fit_prologue env self x y tm @ s) = batch_flow_ok xp c a s"
  by (simp add: fit_prologue_def Let_def)

lemma loss_inputs_ok_fit_prologue [simp]:
  "loss_inputs_ok yp c a (fit_prologue env self x y tm @ s) = loss_inputs_ok yp c a s"
  by (simp add: fit_prologue_def Let_def)

lemma epochs_of_fit_prologue [simp]:
  "epochs_of (fit_prologue env self x y tm @ s) = epochs_of s"
  by (simp add: fit_prologue_def Let_def)

text \<open>The small instance, run for one epoch of three examples in batches of two.\<close>

lemma toy_fit_run:
  "fit toy_env (toy_self (Some ())) [10, 20, 30] [1, 0, 1] (Some 2) (Some 1) None
     ([] :: int kwargs) =
   (Inr (),
    \<lparr> optimizer = Some (), nb_classes = 2, threshold = 1 / 2, use_amp = False,
      backend = (True, 2) \<rparr>,
    [ModelTrain True, CheckAndTransformLabelFormat [1, 0, 1] 2,
     ApplyPreprocessing [10, 20, 30] [1, 0, 1] True, ReduceLabels [1, 0, 1],
     RandomShuffle [0, 1, 2] [2, 1, 0],
     NpCopy [2, 1] [30, 20], AblatorForward [30, 20] [60, 40], ZeroGrad,
     ModelCall [60, 40] [0, 100], LossCall 100 [1, 0], Backward 99, OptimizerStep,
     NpCopy [0] [10], AblatorForward [10] [20], ZeroGrad,
     ModelCall [20] [0, 20], LossCall 20 [1], Backward 19, OptimizerStep])"
  by (simp add: fit_def toy_env_def toy_self_def or_default_def train_batch_def py_slice_def
      np_take_def py_range_def Let_def numeral_2_eq_2 upt_rec)

lemma toy_fit_preprocessed:
  "fit_preprocessed toy_env (toy_self opt) x y tm = (x, y)"
  by (simp add: fit_preprocessed_def toy_env_def Let_def)

lemma toy_self_simps [simp]:
  "optimizer (toy_self opt) = opt" "use_amp (toy_self opt) = False"
  by (simp_all add: toy_self_def)

subsection \<open>The order of the calls\<close>

lemma train_batch_stages:
  assumes "train_batch env opt amp xp yp bs ind m b = (r, b1, t)"
  shows "prefix (map stage_of t) (batch_stages amp) \<and>
         (case r of Inr u \<Rightarrow> map stage_of t = batch_stages amp | Inl e \<Rightarrow> True)"
proof (cases r)
  case (Inl e)
  with train_batch_Inl [of env opt amp xp yp bs ind m b e b1 t] assms
  show ?thesis by (auto simp: batch_stages_def)
next
  case (Inr u)
  with train_batch_Inr [of env opt amp xp yp bs ind m b u b1 t] assms
  show ?thesis by (auto simp: batch_stages_def)
qed

lemma batches_stages:
  "batches env opt amp xp yp bs ind ms b = (r, b1, t) \<Longrightarrow>
   prefix (map stage_of t) (concat (replicate (length ms) (batch_stages amp))) \<and>
   (case r of Inr u \<Rightarrow> map stage_of t = concat (replicate (length ms) (batch_stages amp))
            | Inl e \<Rightarrow> True)"
proof (induction ms arbitrary: b r b1 t)
  case Nil
  then show ?case by auto
next
  case (Cons m ms)
  obtain r1 b2 t1 where tb: "train_batch env opt amp xp yp bs ind m b = (r1, b2, t1)"
    by (cases "train_batch env opt amp xp yp bs ind m b") auto
  note st = train_batch_stages [OF tb]
  show ?case
  proof (cases r1)
    case (Inl e)
    with Cons.prems tb have "t = t1" "r = Inl e" by auto
    with st show ?thesis by (auto intro: prefix_prefix)
  next
    case (Inr u)
    obtain r2 b3 t2 where bt: "batches env opt amp xp yp bs ind ms b2 = (r2, b3, t2)"
      by (cases "batches env opt amp xp yp bs ind ms b2") auto
    with Cons.prems tb Inr have eq: "t = t1 @ t2" "r = r2" by auto
    from st Inr have s1: "map stage_of t1 = batch_stages amp" by simp
    from Cons.IH [OF bt] eq s1 show ?thesis by (auto split: sum.splits)
  qed
qed

lemma epochs_stages:
  "epochs env opt amp xp yp bs nb k ind b = (r, b1, t) \<Longrightarrow>
   prefix (map stage_of t) (concat (replicate k (epoch_stages amp (nat nb)))) \<and>
   (case r of Inr u \<Rightarrow> map stage_of t = concat (replicate k (epoch_stages amp (nat nb)))
            | Inl e \<Rightarrow> True)"
proof (induction k arbitrary: ind b r b1 t)
  case 0
  then show ?case by auto
next
  case (Suc k)
  obtain ind1 b0 where sh: "random_shuffle env ind b = (ind1, b0)"
    by (cases "random_shuffle env ind b") auto
  obtain r1 b2 t1 where bt:
    "batches env opt amp xp yp bs ind1 (py_range nb) b0 = (r1, b2, t1)"
    by (cases "batches env opt amp xp yp bs ind1 (py_range nb) b0") auto
  from batches_stages [OF bt]
  have st: "prefix (map stage_of t1) (concat (replicate (nat nb) (batch_stages amp)))"
    "case r1 of Inr u \<Rightarrow> map stage_of t1 = concat (replicate (nat nb) (batch_stages amp))
              | Inl e \<Rightarrow> True"
    by (simp_all add: py_range_def split: sum.splits)
  show ?case
  proof (cases r1)
    case (Inl e)
    with Suc.prems sh bt have "t = RandomShuffle ind ind1 # t1" "r = Inl e" by auto
    with st show ?thesis by (auto simp: epoch_stages_def intro: prefix_prefix)
  next
    case (Inr u)
    obtain r2 b3 t2 where ep: "epochs env opt amp xp yp bs nb k ind1 b2 = (r2, b3, t2)"
      by (cases "epochs env opt amp xp yp bs nb k ind1 b2") auto
    with Suc.prems sh bt Inr have eq: "t = RandomShuffle ind ind1 # t1 @ t2" "r = r2" by auto
    from st Inr have s1: "map stage_of t1 = concat (replicate (nat nb) (batch_stages amp))"
      by simp
    from Suc.IH [OF ep] eq s1 show ?thesis
      by (auto simp: epoch_stages_def split: sum.splits)
  qed
qed

lemma train_batch_flow:
  assumes "train_batch env opt amp xp yp bs ind m b = (r, b1, t)"
      and "\<And>c a. batch_flow_ok xp c a s"
  shows "batch_flow_ok xp c a (t @ s)"
proof (cases r)
  case (Inl e)
  with train_batch_Inl [of env opt amp xp yp bs ind m b e b1 t] assms
  show ?thesis by auto
next
  case (Inr u)
  with train_batch_Inr [of env opt amp xp yp bs ind m b u b1 t] assms
  show ?thesis by auto
qed

lemma batches_flow:
  "batches env opt amp xp yp bs ind ms b = (r, b1, t) \<Longrightarrow>
   (\<And>c a. batch_flow_ok xp c a s) \<Longrightarrow> batch_flow_ok xp c a (t @ s)"
proof (induction ms arbitrary: b r b1 t c a)
  case Nil
  then show ?case by auto
next
  case (Cons m ms)
  obtain r1 b2 t1 where tb: "train_batch env opt amp xp yp bs ind m b = (r1, b2, t1)"
    by (cases "train_batch env opt amp xp yp bs ind m b") auto
  show ?case
  proof (cases r1)
    case (Inl e)
    with Cons.prems(1) tb have "t = t1" by auto
    with train_batch_flow [OF tb Cons.prems(2)] show ?thesis by simp
  next
    case (Inr u)
    obtain r2 b3 t2 where bt: "batches env opt amp xp yp bs ind ms b2 = (r2, b3, t2)"
      by (cases "batches env opt amp xp yp bs ind ms b2") auto
    with Cons.prems(1) tb Inr have eq: "t = t1 @ t2" by auto
    have "\<And>c a. batch_flow_ok xp c a (t2 @ s)"
      using Cons.IH [OF bt Cons.prems(2)] .
    from train_batch_flow [OF tb this] eq show ?thesis by simp
  qed
qed

lemma epochs_flow:
  "epochs env opt amp xp yp bs nb k ind b = (r, b1, t) \<Longrightarrow>
   (\<And>c a. batch_flow_ok xp c a s) \<Longrightarrow> batch_flow_ok xp c a (t @ s)"
proof (induction k arbitrary: ind b r b1 t c a)
  case 0
  then show ?case by auto
next
  case (Suc k)
  obtain ind1 b0 where sh: "random_shuffle env ind b = (ind1, b0)"
    by (cases "random_shuffle env ind b") auto
  obtain r1 b2 t1 where bt:
    "batches env opt amp xp yp bs ind1 (py_range nb) b0 = (r1, b2, t1)"
    by (cases "batches env opt amp xp yp bs ind1 (py_range nb) b0") auto
  show ?case
  proof (cases r1)
    case (Inl e)
    with Suc.prems(1) sh bt have "t = RandomShuffle ind ind1 # t1" by auto
    with batches_flow [OF bt Suc.prems(2)] show ?thesis by simp
  next
    case (Inr u)
    obtain r2 b3 t2 where ep: "epochs env opt amp xp yp bs nb k ind1 b2 = (r2, b3, t2)"
      by (cases "epochs env opt amp xp yp bs nb k ind1 b2") auto
    with Suc.prems(1) sh bt Inr have eq: "t = RandomShuffle ind ind1 # t1 @ t2" by auto
    have "\<And>c a. batch_flow_ok xp c a (t2 @ s)"
      using Suc.IH [OF ep Suc.prems(2)] .
    from batches_flow [OF bt this] eq show ?thesis by simp
  qed
qed



subsection \<open>The inputs of the loss\<close>

lemma train_batch_loss:
  assumes "train_batch env opt amp xp yp bs ind m b = (r, b1, t)"
      and "\<And>c a. loss_inputs_ok yp c a s"
  shows "loss_inputs_ok yp c a (t @ s)"
proof (cases r)
  case (Inl e)
  with train_batch_Inl [of env opt amp xp yp bs ind m b e b1 t] assms
  show ?thesis by auto
next
  case (Inr u)
  with train_batch_Inr [of env opt amp xp yp bs ind m b u b1 t] assms
  show ?thesis by auto
qed

lemma batches_loss:
  "batches env opt amp xp yp bs ind ms b = (r, b1, t) \<Longrightarrow>
   (\<And>c a. loss_inputs_ok yp c a s) \<Longrightarrow> loss_inputs_ok yp c a (t @ s)"
proof (induction ms arbitrary: b r b1 t c a)
  case Nil
  then show ?case by auto
next
  case (Cons m ms)
  obtain r1 b2 t1 where tb: "train_batch env opt amp xp yp bs ind m b = (r1, b2, t1)"
    by (cases "train_batch env opt amp xp yp bs ind m b") auto
  show ?case
  proof (cases r1)
    case (Inl e)
    with Cons.prems(1) tb have "t = t1" by auto
    with train_batch_loss [OF tb Cons.prems(2)] show ?thesis by simp
  next
    case (Inr u)
    obtain r2 b3 t2 where bt: "batches env opt amp xp yp bs ind ms b2 = (r2, b3, t2)"
      by (cases "batches env opt amp xp yp bs ind ms b2") auto
    with Cons.prems(1) tb Inr have eq: "t = t1 @ t2" by auto
    have "\<And>c a. loss_inputs_ok yp c a (t2 @ s)"
      using Cons.IH [OF bt Cons.prems(2)] .
    from train_batch_loss [OF tb this] eq show ?thesis by simp
  qed
qed

lemma epochs_loss:
  "epochs env opt amp xp yp bs nb k ind b = (r, b1, t) \<Longrightarrow>
   (\<And>c a. loss_inputs_ok yp c a s) \<Longrightarrow> loss_inputs_ok yp c a (t @ s)"
proof (induction k arbitrary: ind b r b1 t c a)
  case 0
  then show ?case by auto
next
  case (Suc k)
  obtain ind1 b0 where sh: "random_shuffle env ind b = (ind1, b0)"
    by (cases "random_shuffle env ind b") auto
  obtain r1 b2 t1 where bt:
    "batches env opt amp xp yp bs ind1 (py_range nb) b0 = (r1, b2, t1)"
    by (cases "batches env opt amp xp yp bs ind1 (py_range nb) b0") auto
  show ?case
  proof (cases r1)
    case (Inl e)
    with Suc.prems(1) sh bt have "t = RandomShuffle ind ind1 # t1" by auto
    with batches_loss [OF bt Suc.prems(2)] show ?thesis by simp
  next
    case (Inr u)
    obtain r2 b3 t2 where ep: "epochs env opt amp xp yp bs nb k ind1 b2 = (r2, b3, t2)"
      by (cases "epochs env opt amp xp yp bs nb k ind1 b2") auto
    with Suc.prems(1) sh bt Inr have eq: "t = RandomShuffle ind ind1 # t1 @ t2" by auto
    have "\<And>c a. loss_inputs_ok yp c a (t2 @ s)"
      using Suc.IH [OF ep Suc.prems(2)] .
    from batches_loss [OF bt this] eq show ?thesis by simp
  qed
qed



subsection \<open>Batching an epoch\<close>

lemma py_slice_nat:
  "py_slice xs (int lo) (int hi) = take (hi - lo) (drop lo xs)"
proof -
  let ?n = "length xs"
  have a: "py_slice xs (int lo) (int hi) = take (min ?n hi - min ?n lo) (drop (min ?n lo) xs)"
    by (simp add: py_slice_def Let_def min_def nat_diff_distrib')
  show ?thesis
  proof (cases "lo < ?n")
    case True
    then show ?thesis unfolding a by (cases "hi \<le> ?n") (simp_all add: min_def)
  next
    case False
    then show ?thesis unfolding a by (simp add: min_def)
  qed
qed

lemma py_slice_chunk:
  assumes "0 < bs"
  shows "py_slice xs (int m * bs) ((int m + 1) * bs) = take (nat bs) (drop (m * nat bs) xs)"
proof -
  define k where "k = nat bs"
  with assms have bs: "bs = int k" by auto
  have lo: "int m * bs = int (m * k)" and hi: "(int m + 1) * bs = int (m * k + k)"
    by (simp_all add: bs algebra_simps)
  show ?thesis unfolding lo hi py_slice_nat by (simp add: k_def)
qed

lemma concat_chunks:
  "concat (map (\<lambda>m. take k (drop (m * k) xs)) [0..<q]) = take (q * k) xs"
proof (induction q)
  case 0
  show ?case by simp
next
  case (Suc q)
  have "take (q * k + k) xs = take (q * k) xs @ take k (drop (q * k) xs)"
    by (rule take_add)
  with Suc show ?case by (simp add: add.commute)
qed

lemma num_batch_nonneg: "0 \<le> \<lceil>real n / real k\<rceil>"
proof -
  have "0 \<le> real n / real k" by simp
  then have "- 1 < real n / real k" by linarith
  then show ?thesis by simp
qed

lemma num_batch_covers:
  assumes "0 < k"
  shows "n \<le> nat \<lceil>real n / real k\<rceil> * k"
proof -
  define q where "q = nat \<lceil>real n / real k\<rceil>"
  have "real q = of_int \<lceil>real n / real k\<rceil>"
    unfolding q_def using num_batch_nonneg [of n k] by simp
  moreover have "real n / real k \<le> of_int \<lceil>real n / real k\<rceil>" by (rule le_of_int_ceiling)
  ultimately have "real n / real k \<le> real q" by simp
  with assms have "real n \<le> real q * real k"
    by (simp add: pos_divide_le_eq)
  then have "real n \<le> real (q * k)" by simp
  then have "n \<le> q * k" by (simp only: of_nat_le_iff)
  then show ?thesis by (simp add: q_def)
qed

lemma num_batch_full:
  assumes "0 < k" and "Suc m < nat \<lceil>real n / real k\<rceil>"
  shows "Suc m * k < n"
proof -
  define q where "q = nat \<lceil>real n / real k\<rceil>"
  have q: "real q = of_int \<lceil>real n / real k\<rceil>"
    unfolding q_def using num_batch_nonneg [of n k] by simp
  have c: "of_int \<lceil>real n / real k\<rceil> - 1 < real n / real k"
    using ceiling_correct [of "real n / real k"] by simp
  from assms(2) have "Suc (Suc m) \<le> q" by (simp add: q_def)
  then have "real (Suc (Suc m)) \<le> real q" by (simp only: of_nat_le_iff)
  then have "real (Suc m) + 1 \<le> real q" by simp
  with q c have "real (Suc m) < real n / real k" by linarith
  with assms(1) have "real (Suc m) * real k < real n"
    by (simp add: pos_less_divide_eq)
  then have "real (Suc m * k) < real n" by (simp only: of_nat_mult)
  then show ?thesis by (simp only: of_nat_less_iff)
qed

lemma once_in_concat:
  "distinct (concat bts) \<Longrightarrow> i \<in> set (concat bts) \<Longrightarrow>
   length (filter (\<lambda>bt. i \<in> set bt) bts) = 1"
proof (induction bts)
  case Nil
  then show ?case by simp
next
  case (Cons bt bts)
  show ?case
  proof (cases "i \<in> set bt")
    case True
    with Cons.prems(1) have "\<forall>c\<in>set bts. i \<notin> set c" by auto
    then have "filter (\<lambda>c. i \<in> set c) bts = []" by (simp add: filter_empty_conv)
    with True show ?thesis by simp
  next
    case False
    with Cons show ?thesis by auto
  qed
qed

lemma butlast_map_upt: "butlast (map f [0..<q]) = map f [0..<q - 1]"
  by (cases q) simp_all

lemma chunks_epoch_ok:
  assumes "0 < k" and "mset ind = mset [0..<n]"
  shows "epoch_ok n k (ind, map (\<lambda>m. take k (drop (m * k) ind)) [0..<nat \<lceil>real n / real k\<rceil>])"
proof -
  let ?q = "nat \<lceil>real n / real k\<rceil>"
  let ?bts = "map (\<lambda>m. take k (drop (m * k) ind)) [0..<?q]"
  from assms(2) have len: "length ind = n"
    by (metis size_mset length_upt diff_zero)
  from assms(2) have dist: "distinct ind"
    by (metis distinct_upt mset_eq_imp_distinct_iff)
  from assms(2) have set_ind: "set ind = {0..<n}"
    by (metis mset_eq_setD set_upt)
  have cc: "concat ?bts = ind"
    using num_batch_covers [OF assms(1), of n] len by (simp add: concat_chunks)
  have l: "int (length ?bts) = \<lceil>real n / real k\<rceil>"
    using num_batch_nonneg [of n k] by simp
  have full: "list_all (\<lambda>bt. length bt = k) (butlast ?bts)"
  proof -
    have "butlast ?bts = map (\<lambda>m. take k (drop (m * k) ind)) [0..<?q - 1]"
      by (rule butlast_map_upt)
    moreover have "length (take k (drop (m * k) ind)) = k" if "m < ?q - 1" for m
    proof -
      from that have "Suc m < ?q" by simp
      from num_batch_full [OF assms(1) this] len show ?thesis by simp
    qed
    ultimately show ?thesis by (simp add: list_all_iff)
  qed
  have once: "list_all (\<lambda>i. length (filter (\<lambda>bt. i \<in> set bt) ?bts) = 1) [0..<n]"
    unfolding list_all_iff
  proof
    fix i assume "i \<in> set [0..<n]"
    with set_ind have "i \<in> set (concat ?bts)" unfolding cc by simp
    moreover from dist have "distinct (concat ?bts)" unfolding cc .
    ultimately show "length (filter (\<lambda>bt. i \<in> set bt) ?bts) = 1"
      by (rule once_in_concat [rotated])
  qed
  from assms(2) cc l full once show ?thesis
    unfolding epoch_ok_def by simp
qed

lemma train_batch_copies:
  assumes "train_batch env opt amp xp yp bs ind m b = (Inr u, b1, t)"
  shows "copies (t @ s) = py_slice ind (int m * bs) ((int m + 1) * bs) # copies s \<and>
         epochs_of (t @ s) = epochs_of s"
  using train_batch_Inr [OF assms] by auto

lemma batches_copies:
  "batches env opt amp xp yp bs ind ms b = (Inr u, b1, t) \<Longrightarrow>
   copies (t @ s) = map (\<lambda>m. py_slice ind (int m * bs) ((int m + 1) * bs)) ms @ copies s \<and>
   epochs_of (t @ s) = epochs_of s"
proof (induction ms arbitrary: b b1 t)
  case Nil
  then show ?case by auto
next
  case (Cons m ms)
  obtain r1 b2 t1 where tb: "train_batch env opt amp xp yp bs ind m b = (r1, b2, t1)"
    by (cases "train_batch env opt amp xp yp bs ind m b") auto
  obtain r2 b3 t2 where bt: "batches env opt amp xp yp bs ind ms b2 = (r2, b3, t2)"
    by (cases "batches env opt amp xp yp bs ind ms b2") auto
  from Cons.prems tb bt obtain u1 where r1: "r1 = Inr u1" and r2: "r2 = Inr u"
    and t: "t = t1 @ t2"
    by (cases r1) auto
  from train_batch_copies [OF tb [unfolded r1], of "t2 @ s"]
    Cons.IH [OF bt [unfolded r2]] t
  show ?case by simp
qed

lemma epochs_copies_Nil:
  "epochs env opt amp xp yp bs nb k ind b = (r, b1, t) \<Longrightarrow> copies t = []"
  by (cases k) (auto simp: Let_def split: prod.splits sum.splits)

lemma epochs_epochs_of:
  "epochs env opt amp xp yp bs nb k ind b = (Inr u, b1, t) \<Longrightarrow>
   (\<And>ind b. mset (fst (random_shuffle env ind b)) = mset ind) \<Longrightarrow>
   length (epochs_of t) = k \<and>
   list_all (\<lambda>ep. mset (fst ep) = mset ind \<and>
               snd ep = map (\<lambda>m. py_slice (fst ep) (int m * bs) ((int m + 1) * bs))
                          (py_range nb))
     (epochs_of t)"
proof (induction k arbitrary: ind b b1 t)
  case 0
  then show ?case by auto
next
  case (Suc k)
  obtain ind1 b0 where sh: "random_shuffle env ind b = (ind1, b0)"
    by (cases "random_shuffle env ind b") auto
  from Suc.prems(2) [of ind b] sh have ms: "mset ind1 = mset ind" by simp
  obtain r1 b2 t1 where bt:
    "batches env opt amp xp yp bs ind1 (py_range nb) b0 = (r1, b2, t1)"
    by (cases "batches env opt amp xp yp bs ind1 (py_range nb) b0") auto
  obtain r2 b3 t2 where ep: "epochs env opt amp xp yp bs nb k ind1 b2 = (r2, b3, t2)"
    by (cases "epochs env opt amp xp yp bs nb k ind1 b2") auto
  from Suc.prems(1) sh bt ep obtain u1 where r1: "r1 = Inr u1" and r2: "r2 = Inr u"
    and t: "t = RandomShuffle ind ind1 # t1 @ t2"
    by (cases r1) auto
  note c = batches_copies [OF bt [unfolded r1], of t2]
  note e = epochs_copies_Nil [OF ep]
  from Suc.IH [OF ep [unfolded r2] Suc.prems(2)] c e t ms
  show ?case by simp
qed

text \<open>
  Claim C10. Take a run of \<^verbatim>\<open>fit\<close> that completes, with a positive batch size \<open>b\<close>, over \<open>n\<close>
  preprocessed examples, and let \<^verbatim>\<open>random.shuffle\<close> permute its argument. The run has as many
  epochs as were asked for, and in every epoch the shuffled index array is a permutation
  of \<open>0, ..., n - 1\<close>, the number of batches is the ceiling of \<open>n / b\<close>, the batches are the
  consecutive slices of the shuffled array, every batch but the last has \<open>b\<close> indices, and
  every index below \<open>n\<close> is in exactly one batch.
\<close>

theorem fit_epoch_batching:
  assumes "optimizer self = Some opt"
      and "bs = or_default 128 batch_size" and "0 < bs"
      and "\<forall>ind b. mset (fst (random_shuffle env ind b)) = mset ind"
      and "fit env self x y batch_size nb_epochs training_mode kwargs = (Inr u, self1, t)"
      and "n = length (fst (fit_preprocessed env self x y (or_default True training_mode)))"
  shows "length (epochs_of t) = nat (or_default 10 nb_epochs) \<and>
         list_all (epoch_ok n (nat bs)) (epochs_of t)"
proof -
  let ?xp = "fst (fit_preprocessed env self x y (or_default True training_mode))"
  let ?yp = "snd (fit_preprocessed env self x y (or_default True training_mode))"
  let ?nb = "\<lceil>real n / real_of_int bs\<rceil>"
  define k where "k = nat bs"
  with assms(3) have bsk: "bs = int k" and k: "0 < k" by auto
  obtain r2 b2 t2 where ep:
    "epochs env opt (use_amp self) ?xp ?yp bs ?nb (nat (or_default 10 nb_epochs)) [0..<n]
       (fit_backend1 env self x y (or_default True training_mode)) = (r2, b2, t2)"
    using prod_cases3 by blast
  from assms(3) have "bs \<noteq> 0" by simp
  with fit_Some_eq [where env = env and x = x and y = y and batch_size = batch_size
      and training_mode = training_mode and nb_epochs = nb_epochs and kwargs = kwargs,
      OF assms(1) assms(2) refl refl refl] assms(5,6) ep
  have eq: "r2 = Inr u" "t = fit_prologue env self x y (or_default True training_mode) @ t2"
    by simp_all
  from epochs_epochs_of [OF ep [unfolded eq(1)]] assms(4)
  have len: "length (epochs_of t2) = nat (or_default 10 nb_epochs)"
    and all: "list_all (\<lambda>ep. mset (fst ep) = mset [0..<n] \<and>
                snd ep = map (\<lambda>m. py_slice (fst ep) (int m * bs) ((int m + 1) * bs))
                           (py_range ?nb)) (epochs_of t2)"
    by simp_all
  have "epoch_ok n k ep"
    if "mset (fst ep) = mset [0..<n] \<and>
        snd ep = map (\<lambda>m. py_slice (fst ep) (int m * bs) ((int m + 1) * bs)) (py_range ?nb)"
    for ep
  proof -
    have rk: "real_of_int bs = real k" by (simp add: bsk)
    have sl: "py_slice xs (int m * bs) ((int m + 1) * bs) = take k (drop (m * k) xs)"
      for xs :: "nat list" and m
      unfolding k_def by (rule py_slice_chunk [OF assms(3)])
    from that have m: "mset (fst ep) = mset [0..<n]"
      and s: "snd ep = map (\<lambda>m. take k (drop (m * k) (fst ep))) [0..<nat \<lceil>real n / real k\<rceil>]"
      by (simp_all add: py_range_def sl rk)
    from chunks_epoch_ok [OF k m] s show ?thesis by (cases ep) simp
  qed
  with all have "list_all (epoch_ok n k) (epochs_of t2)"
    by (simp add: list_all_iff)
  with len eq(2) show ?thesis by (simp add: k_def)
qed

theorem fit_epoch_batching_witness:
  "epochs_of (snd (snd (fit toy_env (toy_self (Some ())) [10, 20, 30] [1, 0, 1] (Some 2)
                          (Some 1) None ([] :: int kwargs)))) = [([2, 1, 0], [[2, 1], [0]])] \<and>
   epoch_ok 3 2 ([2, 1, 0], [[2, 1], [0]])"
proof -
  have a: "optimizer (toy_self (Some ())) = Some ()" by simp
  have b: "(2 :: int) = or_default 128 (Some 2)" by (simp add: or_default_def)
  have c: "(0 :: int) < 2" by simp
  have d: "\<forall>ind b. mset (fst (random_shuffle toy_env ind b)) = mset ind"
    by (simp add: toy_env_def)
  from fit_epoch_batching [OF a b c d toy_fit_run refl]
  have "epoch_ok 3 2 ([2, 1, 0], [[2, 1], [0]])"
    unfolding toy_fit_preprocessed by (simp add: or_default_def numeral_3_eq_3)
  then show ?thesis unfolding toy_fit_run by simp
qed

subsection \<open>Failures\<close>

lemma batches_Inl:
  "batches env opt amp xp yp bs ind ms b = (Inl e, b1, t) \<Longrightarrow> e = IndexError"
proof (induction ms arbitrary: b b1 t)
  case Nil
  then show ?case by simp
next
  case (Cons m ms)
  obtain r1 b2 t1 where tb: "train_batch env opt amp xp yp bs ind m b = (r1, b2, t1)"
    by (cases "train_batch env opt amp xp yp bs ind m b") auto
  show ?case
  proof (cases r1)
    case (Inl e1)
    with Cons.prems tb have "e = e1" by simp
    with train_batch_Inl [OF tb [unfolded Inl]] show ?thesis by simp
  next
    case (Inr u)
    with Cons.prems tb Cons.IH show ?thesis by (auto split: prod.splits)
  qed
qed

lemma epochs_Inl:
  "epochs env opt amp xp yp bs nb k ind b = (Inl e, b1, t) \<Longrightarrow> e = IndexError"
proof (induction k arbitrary: ind b b1 t)
  case 0
  then show ?case by simp
next
  case (Suc k)
  obtain ind1 b0 where sh: "random_shuffle env ind b = (ind1, b0)"
    by (cases "random_shuffle env ind b") auto
  obtain r1 b2 t1 where bt:
    "batches env opt amp xp yp bs ind1 (py_range nb) b0 = (r1, b2, t1)"
    by (cases "batches env opt amp xp yp bs ind1 (py_range nb) b0") auto
  show ?case
  proof (cases r1)
    case (Inl e1)
    with Suc.prems sh bt have "e = e1" by simp
    with batches_Inl [OF bt [unfolded Inl]] show ?thesis by simp
  next
    case (Inr u)
    with Suc.prems sh bt Suc.IH show ?thesis by (auto split: prod.splits)
  qed
qed

lemma set_py_slice: "set (py_slice xs lo hi) \<subseteq> set xs"
proof -
  have "set (take a (drop b xs)) \<subseteq> set xs" for a b
    by (meson set_take_subset set_drop_subset subset_trans)
  then show ?thesis by (simp add: py_slice_def Let_def)
qed

lemma np_take_in_range:
  assumes "set idx \<subseteq> {0..<n}" and "n \<le> length xs"
  shows "np_take xs idx = Inr (map (\<lambda>i. xs ! i) idx)"
proof -
  from assms have "\<forall>i\<in>set idx. i < length xs" by auto
  then show ?thesis by (simp add: np_take_def list_all_iff)
qed

lemma train_batch_total:
  assumes "set ind \<subseteq> {0..<length xp}" and "length xp \<le> length yp"
      and "\<And>xs b. fst (model_call env xs b) \<noteq> []"
  shows "fst (train_batch env opt amp xp yp bs ind m b) = Inr ()"
proof -
  let ?idx = "py_slice ind (int m * bs) ((int m + 1) * bs)"
  from assms(1) set_py_slice [of ind] have s: "set ?idx \<subseteq> {0..<length xp}" by blast
  have x: "np_take xp ?idx = Inr (map (\<lambda>i. xp ! i) ?idx)"
    by (rule np_take_in_range [OF s]) simp
  have y: "np_take yp ?idx = Inr (map (\<lambda>i. yp ! i) ?idx)"
    by (rule np_take_in_range [OF s assms(2)])
  show ?thesis
    unfolding train_batch_def Let_def x y using assms(3)
    by (simp add: split_beta)
qed

lemma batches_total:
  assumes "set ind \<subseteq> {0..<length xp}" and "length xp \<le> length yp"
      and "\<And>xs b. fst (model_call env xs b) \<noteq> []"
  shows "fst (batches env opt amp xp yp bs ind ms b) = Inr ()"
proof (induction ms arbitrary: b)
  case Nil
  show ?case by simp
next
  case (Cons m ms)
  from train_batch_total [OF assms, of opt amp bs m b]
  obtain b1 t1 where tb: "train_batch env opt amp xp yp bs ind m b = (Inr (), b1, t1)"
    by (metis fst_conv prod_cases3)
  with Cons.IH [of b1] show ?case by (simp add: split_beta)
qed

lemma epochs_total:
  assumes "length xp \<le> length yp"
      and "\<And>xs b. fst (model_call env xs b) \<noteq> []"
      and "\<And>ind b. mset (fst (random_shuffle env ind b)) = mset ind"
  shows "set ind \<subseteq> {0..<length xp} \<Longrightarrow>
         fst (epochs env opt amp xp yp bs nb k ind b) = Inr ()"
proof (induction k arbitrary: ind b)
  case 0
  show ?case by simp
next
  case (Suc k)
  obtain ind1 b0 where sh: "random_shuffle env ind b = (ind1, b0)"
    by (cases "random_shuffle env ind b") auto
  from assms(3) [of ind b] sh have "set ind1 = set ind"
    by (metis fst_conv mset_eq_setD)
  with Suc.prems have s1: "set ind1 \<subseteq> {0..<length xp}" by simp
  from batches_total [OF s1 assms(1,2), of opt amp bs "py_range nb" b0]
  obtain b2 t1 where bt:
    "batches env opt amp xp yp bs ind1 (py_range nb) b0 = (Inr (), b2, t1)"
    by (metis fst_conv prod_cases3)
  with sh Suc.IH [OF s1, of b2] show ?case by (simp add: split_beta)
qed




end
